theory Spec2Isabelle
  imports Complex_Main "HOL-Library.Sublist"
begin

section \<open>The stateful swapping strategy (strategies/stateful_swapping.py)\<close>

text \<open>
  Modelling conventions.
  \<^item> A finite Python \<open>float\<close> is modelled as the \<open>real\<close> it denotes; there is no
    infinity and no NaN, and comparisons are exact, as they are on floats. Every
    division of the source is guarded (\<open>entry_price > 0\<close>, \<open>_last_price > 0\<close>, a
    non-empty bucket), so no operation raises.
  \<^item> The additions and subtractions that build the scores of \<open>decide\<close> round, and a
    rounded score can tie, or miss a threshold, where the exact one does not. \<open>decide\<close>
    therefore takes the float addition and subtraction as a parameter (\<open>float_ops\<close>),
    and what is proved of it holds for every such pair of operations, the rounding ones
    of the interpreter among them.
  \<^item> The other arithmetic (the \<open>pnl_pct\<close> of an outcome, the market signal, the
    aggregates of \<open>update_metrics\<close>) is the exact one: the model's value is the real
    number that the program's float approximates. Nothing is proved here about how
    close the stored aggregates are to these values.
  \<^item> \<open>TradeSide\<close> is the closed three-valued literal type of the source.
  \<^item> The dictionaries \<open>success_rates\<close> and \<open>avg_pnl\<close> are created with exactly the
    three sides as keys and no key is ever added or removed, so they are total functions
    on \<open>TradeSide\<close>.
  \<^item> \<open>time.time()\<close> is read from the ambient clock; the model takes each reading as an
    argument of the operation that performs it.
  \<^item> Mutation is explicit state passing: each method takes the object and returns it
    updated.
\<close>

subsection \<open>Data model\<close>

datatype TradeSide = ETH_TO_USDC | USDC_TO_ETH | HOLD

record TradeRecord =
  timestamp :: real
  side :: TradeSide
  eth_price :: real
  size_eth :: real
  pnl_pct :: real

record StrategyMemory =
  trades :: "TradeRecord list"
  success_rates :: "TradeSide \<Rightarrow> real"
  avg_pnl :: "TradeSide \<Rightarrow> real"
  max_trades_kept :: int
  last_summary_at :: real
  summary_cooldown_sec :: int

record StatefulSwapStrategy =
  memory :: StrategyMemory
  rebalance_threshold :: real
  observe_cycles_before_trade :: int
  observed_cycles :: int
  last_price :: "real option"

text \<open>
  The float operations of the interpreter that \<open>decide\<close> applies to its scores:
  \<open>fadd x y\<close> is what \<open>x + y\<close> evaluates to on floats, \<open>fsub x y\<close> what \<open>x - y\<close> does.
\<close>

record float_ops =
  fadd :: "real \<Rightarrow> real \<Rightarrow> real"
  fsub :: "real \<Rightarrow> real \<Rightarrow> real"

subsection \<open>StrategyMemory.update_metrics\<close>

text \<open>
  The loop \<open>for t in self.trades: by_side[t.side].append(t.pnl_pct)\<close>, started on the
  three empty buckets.
\<close>

fun by_side_loop :: "TradeRecord list \<Rightarrow> (TradeSide \<Rightarrow> real list) \<Rightarrow> (TradeSide \<Rightarrow> real list)" where
  "by_side_loop [] by_side = by_side"
| "by_side_loop (t # ts) by_side =
     by_side_loop ts (by_side(side t := by_side (side t) @ [pnl_pct t]))"

text \<open>\<open>sum(1 for x in arr if x > 0)\<close>\<close>

definition wins :: "real list \<Rightarrow> int" where
  "wins arr = sum_list (map (\<lambda>x. 1) (filter (\<lambda>x. x > 0) arr))"

definition update_metrics :: "StrategyMemory \<Rightarrow> StrategyMemory" where
  "update_metrics m =
     (if trades m = [] then
        m\<lparr>success_rates := (\<lambda>k. 0), avg_pnl := (\<lambda>k. 0)\<rparr>
      else
        let by_side = by_side_loop (trades m) (\<lambda>s. []) in
        m\<lparr>success_rates :=
            (\<lambda>s. if by_side s \<noteq> [] then of_int (wins (by_side s)) / of_nat (length (by_side s))
                 else 0),
          avg_pnl :=
            (\<lambda>s. if by_side s \<noteq> [] then sum_list (by_side s) / of_nat (length (by_side s))
                 else 0)\<rparr>)"

subsection \<open>StrategyMemory.summarize_if_needed\<close>

text \<open>
  The records of \<open>self.trades\<close> are objects; \<open>is\<close> compares their identity, not their
  fields. Every record is allocated by \<open>record_trade_outcome\<close> and enters the list once,
  and compaction never enters a record twice, so the slots of the list hold pairwise
  distinct objects: an object is referred to by its position in \<open>self.trades\<close>, and two
  references are identical iff the positions are equal.

  \<open>max(self.trades, key=lambda t: t.pnl_pct, default=None)\<close> starts from the first
  element and replaces the current maximum only by an element whose key is strictly
  greater; \<open>max_scan rest j b k\<close> is that loop, with \<open>j\<close> the position of the head of
  \<open>rest\<close>, \<open>b\<close> the position of the current maximum and \<open>k\<close> its key.
\<close>

fun max_scan :: "TradeRecord list \<Rightarrow> nat \<Rightarrow> nat \<Rightarrow> real \<Rightarrow> nat" where
  "max_scan [] j b k = b"
| "max_scan (t # ts) j b k =
     (if pnl_pct t > k then max_scan ts (Suc j) j (pnl_pct t)
      else max_scan ts (Suc j) b k)"

definition max_by_pnl :: "TradeRecord list \<Rightarrow> nat option" where
  "max_by_pnl ts = (case ts of [] \<Rightarrow> None | t # rest \<Rightarrow> Some (max_scan rest 1 0 (pnl_pct t)))"

text \<open>
  \<open>now\<close> is the reading of \<open>time.time()\<close>. \<open>self.trades[-10:]\<close> is the slice from
  position \<open>max (len - 10) 0\<close> to the end, which is what the truncating subtraction on
  \<open>nat\<close> gives.
\<close>

definition summarize_if_needed :: "real \<Rightarrow> StrategyMemory \<Rightarrow> StrategyMemory" where
  "summarize_if_needed now m =
     (if int (length (trades m)) \<le> max_trades_kept m then m
      else if now - last_summary_at m < of_int (summary_cooldown_sec m) then m
      else
        let best_trade = max_by_pnl (trades m);
            recent = [length (trades m) - 10 ..< length (trades m)];
            kept = (case best_trade of
                      None \<Rightarrow> recent
                    | Some b \<Rightarrow> if list_all (\<lambda>t. t \<noteq> b) recent then recent @ [b] else recent)
        in (update_metrics (m\<lparr>trades := map (\<lambda>i. trades m ! i) kept\<rparr>))
             \<lparr>last_summary_at := now\<rparr>)"

subsection \<open>StatefulSwapStrategy\<close>

text \<open>\<open>__init__\<close>, with the defaults of the \<open>StrategyMemory\<close> dataclass.\<close>

definition init :: "real \<Rightarrow> int \<Rightarrow> int \<Rightarrow> StatefulSwapStrategy" where
  "init rebalance_threshold' observe_cycles_before_trade' max_trades_kept' =
     \<lparr>memory = \<lparr>trades = [], success_rates = (\<lambda>k. 0), avg_pnl = (\<lambda>k. 0),
                max_trades_kept = max_trades_kept', last_summary_at = 0,
                summary_cooldown_sec = 120\<rparr>,
      rebalance_threshold = rebalance_threshold',
      observe_cycles_before_trade = observe_cycles_before_trade',
      observed_cycles = 0,
      last_price = None\<rparr>"

definition observe :: "real \<Rightarrow> real option \<Rightarrow> StatefulSwapStrategy \<Rightarrow> StatefulSwapStrategy" where
  "observe price market_volatility s =
     s\<lparr>observed_cycles := observed_cycles s + 1, last_price := Some price\<rparr>"

definition market_signal :: "StatefulSwapStrategy \<Rightarrow> real \<Rightarrow> real" where
  "market_signal s price =
     (case last_price s of
        None \<Rightarrow> 0
      | Some lp \<Rightarrow>
          let delta = price - lp;
              rel = (if lp > 0 then delta / lp else 0)
          in max (min rel 0.02) (- 0.02))"

text \<open>
  \<open>decide\<close> returns the action and the updated strategy. \<open>abs\<close> and the comparisons
  are exact on floats.
\<close>

definition decide ::
  "float_ops \<Rightarrow> real \<Rightarrow> real \<Rightarrow> real \<Rightarrow> real option \<Rightarrow> StatefulSwapStrategy \<Rightarrow>
     TradeSide \<times> StatefulSwapStrategy" where
  "decide F price portfolio_eth portfolio_usdc recent_market_signal s =
     (if observed_cycles s < observe_cycles_before_trade s then
        (HOLD, s\<lparr>last_price := Some price\<rparr>)
      else
        let eth_to_usdc_score = avg_pnl (memory s) ETH_TO_USDC;
            usdc_to_eth_score = avg_pnl (memory s) USDC_TO_ETH;
            market_bias = (case recent_market_signal of
                             None \<Rightarrow> market_signal s price
                           | Some v \<Rightarrow> v);
            score_buy_eth = fadd F usdc_to_eth_score market_bias;
            score_sell_eth = fsub F eth_to_usdc_score market_bias
        in
          if rebalance_threshold s \<le> 0 then
            (if score_buy_eth > score_sell_eth \<and> portfolio_usdc > 0 then
               (USDC_TO_ETH, s\<lparr>last_price := Some price\<rparr>)
             else if score_sell_eth > score_buy_eth \<and> portfolio_eth > 0 then
               (ETH_TO_USDC, s\<lparr>last_price := Some price\<rparr>)
             else (HOLD, s\<lparr>last_price := Some price\<rparr>))
          else
            let diff = \<bar>fsub F score_buy_eth score_sell_eth\<bar> in
            if diff < rebalance_threshold s then (HOLD, s\<lparr>last_price := Some price\<rparr>)
            else
              (if score_buy_eth > score_sell_eth then USDC_TO_ETH else ETH_TO_USDC,
               s\<lparr>last_price := Some price\<rparr>))"

text \<open>
  \<open>record_trade_outcome\<close> reads the clock twice: \<open>stamp\<close> is the reading stored in the
  record, \<open>now\<close> the one taken by \<open>summarize_if_needed\<close>.
\<close>

definition record_trade_outcome ::
  "real \<Rightarrow> real \<Rightarrow> TradeSide \<Rightarrow> real \<Rightarrow> real \<Rightarrow> real \<Rightarrow> StatefulSwapStrategy \<Rightarrow> StatefulSwapStrategy" where
  "record_trade_outcome stamp now sd entry_price exit_price sz s =
     (let pnl = (if sd = USDC_TO_ETH then
                   (if entry_price > 0 then (exit_price - entry_price) / entry_price else 0)
                 else if sd = ETH_TO_USDC then
                   (if entry_price > 0 then (entry_price - exit_price) / entry_price else 0)
                 else 0);
          m1 = (memory s)\<lparr>trades := trades (memory s) @
                  [\<lparr>timestamp = stamp, side = sd, eth_price = exit_price,
                    size_eth = sz, pnl_pct = pnl\<rparr>]\<rparr>;
          m2 = update_metrics m1;
          m3 = summarize_if_needed now m2
      in s\<lparr>memory := m3\<rparr>)"

text \<open>
  The states a strategy object can be in: constructed by \<open>__init__\<close>, then changed by
  the methods \<open>observe\<close>, \<open>decide\<close> and \<open>record_trade_outcome\<close>, and by a compaction
  (\<open>summarize_if_needed\<close>) of its memory.
\<close>

inductive reachable :: "StatefulSwapStrategy \<Rightarrow> bool" where
  r_init: "reachable (init rt oc mk)"
| r_observe: "reachable s \<Longrightarrow> reachable (observe price vol s)"
| r_decide: "reachable s \<Longrightarrow> reachable (snd (decide F price pe pu sig s))"
| r_record: "reachable s \<Longrightarrow> reachable (record_trade_outcome stamp now sd en ex sz s)"
| r_compact: "reachable s \<Longrightarrow> reachable (s\<lparr>memory := summarize_if_needed now (memory s)\<rparr>)"

subsection \<open>The quantities the specification names\<close>





text \<open>Clamping to a closed interval, and the relative change of the price.\<close>

definition clamp :: "real \<Rightarrow> real \<Rightarrow> real \<Rightarrow> real" where
  "clamp lo hi x = (if x < lo then lo else if hi < x then hi else x)"

definition relative_change :: "real \<Rightarrow> real \<Rightarrow> real" where
  "relative_change lp price = (if lp \<le> 0 then 0 else (price - lp) / lp)"

text \<open>
  The aggregates recomputed from the log: the records of an action, the fraction of
  them with a positive \<open>pnl_pct\<close>, and the mean of their \<open>pnl_pct\<close>; both are 0 when no
  record has the action.
\<close>

definition records_of :: "TradeSide \<Rightarrow> TradeRecord list \<Rightarrow> TradeRecord list" where
  "records_of a ts = filter (\<lambda>t. side t = a) ts"

definition win_fraction :: "TradeSide \<Rightarrow> TradeRecord list \<Rightarrow> real" where
  "win_fraction a ts =
     (if records_of a ts = [] then 0
      else of_nat (length (filter (\<lambda>t. pnl_pct t > 0) (records_of a ts))) /
           of_nat (length (records_of a ts)))"

definition mean_pnl :: "TradeSide \<Rightarrow> TradeRecord list \<Rightarrow> real" where
  "mean_pnl a ts =
     (if records_of a ts = [] then 0
      else sum_list (map pnl_pct (records_of a ts)) / of_nat (length (records_of a ts)))"

text \<open>
  Compaction fires when the log is longer than \<open>max_trades_kept\<close> and the cooldown has
  elapsed. Position \<open>b\<close> holds the best record of a log when its \<open>pnl_pct\<close> is the
  highest of the log and every earlier record has a strictly lower one (ties go to the
  first record met).
\<close>

definition fires :: "real \<Rightarrow> StrategyMemory \<Rightarrow> bool" where
  "fires now m =
     (max_trades_kept m < int (length (trades m)) \<and>
      of_int (summary_cooldown_sec m) \<le> now - last_summary_at m)"

definition first_best :: "TradeRecord list \<Rightarrow> nat \<Rightarrow> bool" where
  "first_best ts b =
     (b < length ts \<and>
      list_all (\<lambda>t. pnl_pct t \<le> pnl_pct (ts ! b)) ts \<and>
      list_all (\<lambda>t. pnl_pct t < pnl_pct (ts ! b)) (take b ts))"

subsection \<open>Example states\<close>

text \<open>
  A strategy still warming up (target 3, nothing observed) and the default strategy
  (no warmup, threshold 0).
\<close>

definition warming_strategy :: StatefulSwapStrategy where
  "warming_strategy = init 0 3 100"

definition default_strategy :: StatefulSwapStrategy where
  "default_strategy = init 0 0 100"

text \<open>
  Float operations that do not round: what the interpreter's operations are on
  operands whose sum and difference are representable.
\<close>

definition exact_ops :: float_ops where
  "exact_ops = \<lparr>fadd = (\<lambda>x y. x + y), fsub = (\<lambda>x y. x - y)\<rparr>"






text \<open>
  A run of a strategy with \<open>max_trades_kept = 10\<close>. \<open>buy_at t exit_price\<close> records, at
  clock reading \<open>t\<close>, a buy entered at 3000 and closed at \<open>exit_price\<close>; \<open>buy_record\<close> is
  the record it appends, and \<open>record_buys\<close> records a list of such outcomes in order.
  Ten outcomes are recorded at the readings 1001 to 1010, the first with the highest
  return; an eleventh at 1011 triggers a compaction; a twelfth at the reading 2000,
  after the cooldown, triggers a second one.
\<close>

definition buy_at :: "real \<Rightarrow> real \<Rightarrow> StatefulSwapStrategy \<Rightarrow> StatefulSwapStrategy" where
  "buy_at t exit_price s = record_trade_outcome t t USDC_TO_ETH 3000 exit_price 1 s"

definition buy_record :: "real \<Rightarrow> real \<Rightarrow> TradeRecord" where
  "buy_record t exit_price =
     \<lparr>timestamp = t, side = USDC_TO_ETH, eth_price = exit_price, size_eth = 1,
      pnl_pct = (exit_price - 3000) / 3000\<rparr>"

fun record_buys :: "(real \<times> real) list \<Rightarrow> StatefulSwapStrategy \<Rightarrow> StatefulSwapStrategy" where
  "record_buys [] s = s"
| "record_buys ((t, exit_price) # rest) s = record_buys rest (buy_at t exit_price s)"

definition after_ten_outcomes :: StatefulSwapStrategy where
  "after_ten_outcomes =
     record_buys
       [(1001, 3100), (1002, 3010), (1003, 3010), (1004, 3010), (1005, 3010),
        (1006, 3010), (1007, 3010), (1008, 3010), (1009, 3010), (1010, 3010)]
       (init 0 0 10)"

definition after_first_compaction :: StatefulSwapStrategy where
  "after_first_compaction = buy_at 1011 3010 after_ten_outcomes"

definition after_second_compaction :: StatefulSwapStrategy where
  "after_second_compaction = buy_at 2000 3010 after_first_compaction"

text \<open>
  A log of eleven records whose first record has the highest \<open>pnl_pct\<close>, in a memory
  with \<open>max_trades_kept = 10\<close> whose aggregates are up to date.
\<close>

definition sample_record :: "real \<Rightarrow> real \<Rightarrow> TradeRecord" where
  "sample_record t p =
     \<lparr>timestamp = t, side = USDC_TO_ETH, eth_price = 3000, size_eth = 1, pnl_pct = p\<rparr>"

definition sample_log :: "TradeRecord list" where
  "sample_log =
     [sample_record 1 0.05, sample_record 2 0.01, sample_record 3 0.02, sample_record 4 0,
      sample_record 5 0.01, sample_record 6 0.03, sample_record 7 0.02, sample_record 8 0,
      sample_record 9 0.01, sample_record 10 0.02, sample_record 11 0.01]"

definition full_memory :: StrategyMemory where
  "full_memory =
     update_metrics
       \<lparr>trades = sample_log, success_rates = (\<lambda>k. 0), avg_pnl = (\<lambda>k. 0),
        max_trades_kept = 10, last_summary_at = 0, summary_cooldown_sec = 120\<rparr>"

text \<open>The \<open>pnl_pct\<close> that the specification gives to a recorded outcome.\<close>

definition outcome_pnl :: "TradeSide \<Rightarrow> real \<Rightarrow> real \<Rightarrow> real" where
  "outcome_pnl sd entry_price exit_price =
     (case sd of
        USDC_TO_ETH \<Rightarrow> if entry_price \<le> 0 then 0 else (exit_price - entry_price) / entry_price
      | ETH_TO_USDC \<Rightarrow> if entry_price \<le> 0 then 0 else (entry_price - exit_price) / entry_price
      | HOLD \<Rightarrow> 0)"


text \<open>
  The default strategy after one recorded \<open>HOLD\<close> outcome, and after one recorded sale
  from 3000 to 2700.
\<close>

definition one_hold_strategy :: StatefulSwapStrategy where
  "one_hold_strategy = record_trade_outcome 1 1000 HOLD 3000 3100 1 default_strategy"

definition one_sale_strategy :: StatefulSwapStrategy where
  "one_sale_strategy = record_trade_outcome 1 1000 ETH_TO_USDC 3000 2700 1 default_strategy"


section \<open>Properties of the memory\<close>

subsection \<open>The aggregates are the recomputation over the log\<close>

lemma by_side_loop_eq:
  "by_side_loop ts f a = f a @ map pnl_pct (records_of a ts)"
  by (induction ts arbitrary: f) (auto simp: records_of_def)

lemma wins_map:
  "wins (map pnl_pct xs) = int (length (filter (\<lambda>t. pnl_pct t > 0) xs))"
  by (induction xs) (auto simp: wins_def)

lemma trades_update_metrics [simp]: "trades (update_metrics m) = trades m"
  by (simp add: update_metrics_def Let_def)

lemma config_update_metrics [simp]:
  "max_trades_kept (update_metrics m) = max_trades_kept m"
  "last_summary_at (update_metrics m) = last_summary_at m"
  "summary_cooldown_sec (update_metrics m) = summary_cooldown_sec m"
  by (simp_all add: update_metrics_def Let_def)

lemma records_of_Nil [simp]: "records_of a [] = []"
  by (simp add: records_of_def)

lemma success_rates_update_metrics:
  "success_rates (update_metrics m) a = win_fraction a (trades m)"
  by (simp add: update_metrics_def Let_def by_side_loop_eq wins_map win_fraction_def)

lemma avg_pnl_update_metrics:
  "avg_pnl (update_metrics m) a = mean_pnl a (trades m)"
  by (simp add: update_metrics_def Let_def by_side_loop_eq mean_pnl_def)

lemma win_fraction_bounds: "0 \<le> win_fraction a ts \<and> win_fraction a ts \<le> 1"
proof (cases "records_of a ts = []")
  case True
  then show ?thesis by (simp add: win_fraction_def)
next
  case False
  have "length (filter (\<lambda>t. pnl_pct t > 0) (records_of a ts)) \<le> length (records_of a ts)"
    by (rule length_filter_le)
  with False show ?thesis
    by (simp add: win_fraction_def divide_le_eq_1)
qed

lemma summarize_cases:
  "summarize_if_needed now m = m \<or>
   (\<exists>m'. summarize_if_needed now m = (update_metrics m')\<lparr>last_summary_at := now\<rparr>)"
  by (auto simp: summarize_if_needed_def Let_def)

lemma summarize_metrics:
  assumes "success_rates m a = win_fraction a (trades m)"
    and "avg_pnl m a = mean_pnl a (trades m)"
  shows "success_rates (summarize_if_needed now m) a =
           win_fraction a (trades (summarize_if_needed now m)) \<and>
         avg_pnl (summarize_if_needed now m) a =
           mean_pnl a (trades (summarize_if_needed now m))"
  using summarize_cases [of now m] assms
  by (auto simp: success_rates_update_metrics avg_pnl_update_metrics)

lemma reachable_metrics:
  "reachable s \<Longrightarrow>
   success_rates (memory s) a = win_fraction a (trades (memory s)) \<and>
   avg_pnl (memory s) a = mean_pnl a (trades (memory s))"
proof (induction rule: reachable.induct)
  case (r_init rt oc mk)
  show ?case by (simp add: init_def win_fraction_def mean_pnl_def)
next
  case (r_observe s price vol)
  then show ?case by (simp add: observe_def)
next
  case (r_decide s F price pe pu sig)
  then show ?case by (simp add: decide_def Let_def)
next
  case (r_record s stamp now sd en ex sz)
  show ?case
    unfolding record_trade_outcome_def Let_def
    by (simp add: summarize_metrics success_rates_update_metrics avg_pnl_update_metrics)
next
  case (r_compact s now)
  then show ?case by (simp add: summarize_metrics)
qed

subsection \<open>What a compaction keeps\<close>

lemma first_best_iff:
  "first_best ts b \<longleftrightarrow>
     b < length ts \<and> (\<forall>i < length ts. pnl_pct (ts ! i) \<le> pnl_pct (ts ! b)) \<and>
     (\<forall>j < b. pnl_pct (ts ! j) < pnl_pct (ts ! b))"
  by (auto simp: first_best_def list_all_length)

lemma max_scan_first_best:
  "first_best pre b \<Longrightarrow> first_best (pre @ rest) (max_scan rest (length pre) b (pnl_pct (pre ! b)))"
proof (induction rest arbitrary: pre b)
  case Nil
  then show ?case by simp
next
  case (Cons t ts)
  from Cons.prems have b: "b < length pre" by (simp add: first_best_def)
  show ?case
  proof (cases "pnl_pct t > pnl_pct (pre ! b)")
    case True
    from Cons.prems True have "first_best (pre @ [t]) (length pre)"
      by (force simp: first_best_def list_all_iff)
    from Cons.IH [OF this] True show ?thesis by simp
  next
    case False
    from Cons.prems False b have fb: "first_best (pre @ [t]) b"
      by (auto simp: first_best_def nth_append)
    with Cons.IH [OF fb] False b show ?thesis by (simp add: nth_append)
  qed
qed

lemma max_by_pnl_first_best:
  assumes "ts \<noteq> []"
  shows "\<exists>b. max_by_pnl ts = Some b \<and> first_best ts b"
proof -
  from assms obtain t rest where ts: "ts = t # rest" by (cases ts) auto
  have "first_best [t] 0" by (simp add: first_best_def)
  from max_scan_first_best [OF this, of rest] show ?thesis
    by (simp add: ts max_by_pnl_def)
qed

lemma map_nth_upt_drop: "map ((!) xs) [i ..< length xs] = drop i xs"
proof -
  have "drop i (map ((!) xs) [0 ..< length xs]) = map ((!) xs) [i ..< length xs]"
    by (simp add: drop_map)
  then show ?thesis by (simp add: map_nth)
qed

lemma not_in_recent:
  "b < n \<Longrightarrow> list_all (\<lambda>t. t \<noteq> b) [n - 10 ..< n] \<longleftrightarrow> b < n - 10"
  by (auto simp: list_all_iff)

lemma trades_summarize_fires:
  assumes "fires now m"
  shows "trades (summarize_if_needed now m) =
           (case max_by_pnl (trades m) of
              None \<Rightarrow> drop (length (trades m) - 10) (trades m)
            | Some b \<Rightarrow> drop (length (trades m) - 10) (trades m) @
                        (if list_all (\<lambda>t. t \<noteq> b) [length (trades m) - 10 ..< length (trades m)]
                         then [trades m ! b] else []))"
  using assms
  by (auto simp: fires_def summarize_if_needed_def Let_def map_nth_upt_drop split: option.splits)

lemma trades_summarize_idle:
  "\<not> fires now m \<Longrightarrow> summarize_if_needed now m = m"
  by (auto simp: fires_def summarize_if_needed_def)

lemma compaction_shape:
  assumes "fires now m" "trades m \<noteq> []"
  shows "\<exists>b. first_best (trades m) b \<and>
           trades (summarize_if_needed now m) =
             drop (length (trades m) - 10) (trades m) @
             (if b < length (trades m) - 10 then [trades m ! b] else [])"
proof -
  from max_by_pnl_first_best [OF assms(2)] obtain b
    where b: "max_by_pnl (trades m) = Some b" "first_best (trades m) b" by blast
  then have "b < length (trades m)" by (simp add: first_best_def)
  with b show ?thesis
    by (auto simp: trades_summarize_fires [OF assms(1)] not_in_recent)
qed

lemma compaction_empty:
  assumes "fires now m" "trades m = []"
  shows "trades (summarize_if_needed now m) = []"
  using assms by (simp add: trades_summarize_fires max_by_pnl_def)

lemma set_trades_summarize: "set (trades (summarize_if_needed now m)) \<subseteq> set (trades m)"
proof (cases "fires now m")
  case False
  then show ?thesis by (simp add: trades_summarize_idle)
next
  case True
  show ?thesis
  proof (cases "trades m = []")
    case True
    with \<open>fires now m\<close> show ?thesis by (simp add: compaction_empty)
  next
    case False
    from compaction_shape [OF True False] obtain b where
      "first_best (trades m) b"
      "trades (summarize_if_needed now m) =
             drop (length (trades m) - 10) (trades m) @
             (if b < length (trades m) - 10 then [trades m ! b] else [])" by blast
    then show ?thesis
      by (auto simp: first_best_def dest: in_set_dropD)
  qed
qed

lemma first_best_unique:
  assumes "first_best ts b" "first_best ts c"
  shows "b = c"
proof (rule ccontr)
  assume "b \<noteq> c"
  then consider "b < c" | "c < b" by linarith
  then show False
  proof cases
    case 1
    with assms show False by (fastforce simp: first_best_iff)
  next
    case 2
    with assms show False by (fastforce simp: first_best_iff)
  qed
qed

lemma fires_update_metrics [simp]: "fires now (update_metrics m) = fires now m"
  by (simp add: fires_def)

lemma fires_full: "fires 1000 full_memory"
  by (simp add: fires_def full_memory_def sample_log_def)

lemma trades_full: "trades full_memory = sample_log"
  by (simp add: full_memory_def)

lemma first_best_sample: "first_best sample_log 0"
  by (simp add: first_best_def sample_log_def sample_record_def)

lemma compaction_length:
  assumes "fires now m"
  shows "length (trades (summarize_if_needed now m)) \<le> 11"
proof (cases "trades m = []")
  case True
  with assms show ?thesis by (simp add: compaction_empty)
next
  case False
  from compaction_shape [OF assms False] show ?thesis by auto
qed

lemma compaction_keeps_best:
  assumes "fires now m" "first_best (trades m) b"
  shows "trades m ! b \<in> set (trades (summarize_if_needed now m))"
proof -
  from assms(2) have ne: "trades m \<noteq> []" and b: "b < length (trades m)"
    by (auto simp: first_best_def)
  from compaction_shape [OF assms(1) ne] obtain c where
    c: "first_best (trades m) c" and
    eq: "trades (summarize_if_needed now m) =
           drop (length (trades m) - 10) (trades m) @
           (if c < length (trades m) - 10 then [trades m ! c] else [])" by blast
  from first_best_unique [OF assms(2) c] have [simp]: "c = b" by simp
  show ?thesis
  proof (cases "b < length (trades m) - 10")
    case True
    with eq show ?thesis by simp
  next
    case False
    with b have "trades m ! b \<in> set (drop (length (trades m) - 10) (trades m))"
      by (auto simp: in_set_conv_nth intro!: exI [of _ "b - (length (trades m) - 10)"])
    with eq show ?thesis by simp
  qed
qed

subsection \<open>Recording an outcome\<close>

lemma memory_record_trade_outcome:
  "memory (record_trade_outcome stamp now sd en ex sz s) =
     summarize_if_needed now (update_metrics ((memory s)\<lparr>trades := trades (memory s) @
        [\<lparr>timestamp = stamp, side = sd, eth_price = ex, size_eth = sz,
          pnl_pct = outcome_pnl sd en ex\<rparr>]\<rparr>))"
  by (cases sd) (simp_all add: record_trade_outcome_def outcome_pnl_def Let_def not_less)

lemma last_kept:
  assumes "ts \<noteq> []"
  shows "last ts \<in> set (trades (summarize_if_needed now (m\<lparr>trades := ts\<rparr>)))"
proof (cases "fires now (m\<lparr>trades := ts\<rparr>)")
  case False
  with assms show ?thesis by (simp add: trades_summarize_idle)
next
  case True
  from assms have lt: "length ts - 10 < length ts" by (cases ts) auto
  then have ne: "drop (length ts - 10) ts \<noteq> []" by simp
  from lt have "last (drop (length ts - 10) ts) = last ts" by simp
  with last_in_set [OF ne] have "last ts \<in> set (drop (length ts - 10) ts)" by simp
  with compaction_shape [OF True] assms show ?thesis by auto
qed

lemma hold_zero_summarize:
  assumes "\<forall>t \<in> set (trades m). side t = HOLD \<longrightarrow> pnl_pct t = 0"
  shows "\<forall>t \<in> set (trades (summarize_if_needed now m)). side t = HOLD \<longrightarrow> pnl_pct t = 0"
  using assms set_trades_summarize [of now m] by blast

lemma reachable_hold_zero:
  "reachable s \<Longrightarrow> \<forall>t \<in> set (trades (memory s)). side t = HOLD \<longrightarrow> pnl_pct t = 0"
proof (induction rule: reachable.induct)
  case (r_init rt oc mk)
  show ?case by (simp add: init_def)
next
  case (r_observe s price vol)
  then show ?case by (simp add: observe_def)
next
  case (r_decide s F price pe pu sig)
  then show ?case by (simp add: decide_def Let_def)
next
  case (r_record s stamp now sd en ex sz)
  then show ?case
    unfolding memory_record_trade_outcome
    by (intro hold_zero_summarize) (auto simp: outcome_pnl_def)
next
  case (r_compact s now)
  then show ?case by (simp add: hold_zero_summarize)
qed

lemma hold_zero_metrics:
  assumes "\<forall>t \<in> set ts. side t = HOLD \<longrightarrow> pnl_pct t = 0"
  shows "win_fraction HOLD ts = 0 \<and> mean_pnl HOLD ts = 0"
proof -
  from assms have "filter (\<lambda>t. pnl_pct t > 0) (records_of HOLD ts) = []"
    by (auto simp: records_of_def filter_empty_conv)
  moreover from assms have "map pnl_pct (records_of HOLD ts) = replicate (length (records_of HOLD ts)) 0"
    by (auto simp: records_of_def map_replicate_const [symmetric] intro!: map_cong)
  ultimately show ?thesis
    by (simp add: win_fraction_def mean_pnl_def sum_list_replicate)
qed

lemma single_trades:
  "trades (memory (record_trade_outcome stamp now sd en ex sz (init rt oc mk))) =
     [\<lparr>timestamp = stamp, side = sd, eth_price = ex, size_eth = sz,
          pnl_pct = outcome_pnl sd en ex\<rparr>]"
proof -
  let ?r = "\<lparr>timestamp = stamp, side = sd, eth_price = ex, size_eth = sz,
          pnl_pct = outcome_pnl sd en ex\<rparr>"
  let ?m = "update_metrics ((memory (init rt oc mk))\<lparr>trades := trades (memory (init rt oc mk)) @ [?r]\<rparr>)"
  have t: "trades ?m = [?r]" by (simp add: init_def)
  show ?thesis
  proof (cases "fires now ?m")
    case False
    then show ?thesis by (simp add: memory_record_trade_outcome trades_summarize_idle init_def)
  next
    case True
    from compaction_shape [OF True] t show ?thesis
      by (auto simp: memory_record_trade_outcome)
  qed
qed

lemma reachable_default: "reachable default_strategy"
  unfolding default_strategy_def by (rule reachable.r_init)

lemma one_hold_trades:
  "trades (memory one_hold_strategy) =
     [\<lparr>timestamp = 1, side = HOLD, eth_price = 3100, size_eth = 1, pnl_pct = 0\<rparr>]"
  by (simp add: one_hold_strategy_def default_strategy_def single_trades outcome_pnl_def)

subsection \<open>A run with two compactions\<close>

lemma config_summarize [simp]:
  "max_trades_kept (summarize_if_needed now m) = max_trades_kept m"
  "summary_cooldown_sec (summarize_if_needed now m) = summary_cooldown_sec m"
  by (simp_all add: summarize_if_needed_def Let_def)

lemma last_summary_fires: "fires now m \<Longrightarrow> last_summary_at (summarize_if_needed now m) = now"
  by (auto simp: fires_def summarize_if_needed_def Let_def)

lemma memory_buy_at:
  "memory (buy_at t e s) =
     summarize_if_needed t
       (update_metrics ((memory s)\<lparr>trades := trades (memory s) @ [buy_record t e]\<rparr>))"
  by (simp add: buy_at_def buy_record_def memory_record_trade_outcome outcome_pnl_def)

lemma record_buys_idle:
  "int (length (trades (memory s)) + length xs) \<le> max_trades_kept (memory s) \<Longrightarrow>
   trades (memory (record_buys xs s)) = trades (memory s) @ map (\<lambda>(t, e). buy_record t e) xs \<and>
   max_trades_kept (memory (record_buys xs s)) = max_trades_kept (memory s) \<and>
   last_summary_at (memory (record_buys xs s)) = last_summary_at (memory s) \<and>
   summary_cooldown_sec (memory (record_buys xs s)) = summary_cooldown_sec (memory s)"
proof (induction xs s rule: record_buys.induct)
  case (1 s)
  show ?case by simp
next
  case (2 t e rest s)
  let ?m = "update_metrics ((memory s)\<lparr>trades := trades (memory s) @ [buy_record t e]\<rparr>)"
  from "2.prems" have idle: "\<not> fires t ?m"
    by (simp add: fires_def)
  have m: "memory (buy_at t e s) = ?m"
    by (simp add: memory_buy_at trades_summarize_idle [OF idle])
  from "2.prems" have "int (length (trades (memory (buy_at t e s))) + length rest)
      \<le> max_trades_kept (memory (buy_at t e s))"
    by (simp add: m)
  from "2.IH" [OF this] show ?case by (simp add: m)
qed

lemma ten_log:
  "trades (memory after_ten_outcomes) =
     [buy_record 1001 3100, buy_record 1002 3010, buy_record 1003 3010, buy_record 1004 3010,
      buy_record 1005 3010, buy_record 1006 3010, buy_record 1007 3010, buy_record 1008 3010,
      buy_record 1009 3010, buy_record 1010 3010]"
  "max_trades_kept (memory after_ten_outcomes) = 10"
  "last_summary_at (memory after_ten_outcomes) = 0"
  "summary_cooldown_sec (memory after_ten_outcomes) = 120"
proof -
  let ?xs = "[(1001, 3100), (1002, 3010), (1003, 3010), (1004, 3010), (1005, 3010),
        (1006, 3010), (1007, 3010), (1008, 3010), (1009, 3010), (1010::real, 3010::real)]"
  have "int (length (trades (memory (init 0 0 10))) + length ?xs)
          \<le> max_trades_kept (memory (init 0 0 10))"
    by (simp add: init_def)
  from record_buys_idle [OF this]
  show "trades (memory after_ten_outcomes) =
     [buy_record 1001 3100, buy_record 1002 3010, buy_record 1003 3010, buy_record 1004 3010,
      buy_record 1005 3010, buy_record 1006 3010, buy_record 1007 3010, buy_record 1008 3010,
      buy_record 1009 3010, buy_record 1010 3010]"
    "max_trades_kept (memory after_ten_outcomes) = 10"
    "last_summary_at (memory after_ten_outcomes) = 0"
    "summary_cooldown_sec (memory after_ten_outcomes) = 120"
    by (simp_all add: after_ten_outcomes_def init_def)
qed

lemma first_log:
  "trades (memory after_first_compaction) =
     [buy_record 1002 3010, buy_record 1003 3010, buy_record 1004 3010, buy_record 1005 3010,
      buy_record 1006 3010, buy_record 1007 3010, buy_record 1008 3010, buy_record 1009 3010,
      buy_record 1010 3010, buy_record 1011 3010, buy_record 1001 3100]"
  "max_trades_kept (memory after_first_compaction) = 10"
  "last_summary_at (memory after_first_compaction) = 1011"
  "summary_cooldown_sec (memory after_first_compaction) = 120"
proof -
  let ?m = "update_metrics ((memory after_ten_outcomes)
              \<lparr>trades := trades (memory after_ten_outcomes) @ [buy_record 1011 3010]\<rparr>)"
  have f: "fires 1011 ?m" by (simp add: fires_def ten_log)
  have b: "max_by_pnl (trades ?m) = Some 0"
    by (simp add: ten_log max_by_pnl_def buy_record_def)
  show "trades (memory after_first_compaction) =
     [buy_record 1002 3010, buy_record 1003 3010, buy_record 1004 3010, buy_record 1005 3010,
      buy_record 1006 3010, buy_record 1007 3010, buy_record 1008 3010, buy_record 1009 3010,
      buy_record 1010 3010, buy_record 1011 3010, buy_record 1001 3100]"
    unfolding after_first_compaction_def memory_buy_at trades_summarize_fires [OF f] b
    by (simp add: ten_log)
  show "max_trades_kept (memory after_first_compaction) = 10"
    "summary_cooldown_sec (memory after_first_compaction) = 120"
    by (simp_all add: after_first_compaction_def memory_buy_at ten_log)
  show "last_summary_at (memory after_first_compaction) = 1011"
    by (simp add: after_first_compaction_def memory_buy_at last_summary_fires [OF f])
qed

lemma second_log:
  "trades (memory after_second_compaction) =
     [buy_record 1004 3010, buy_record 1005 3010, buy_record 1006 3010, buy_record 1007 3010,
      buy_record 1008 3010, buy_record 1009 3010, buy_record 1010 3010, buy_record 1011 3010,
      buy_record 1001 3100, buy_record 2000 3010]"
proof -
  let ?m = "update_metrics ((memory after_first_compaction)
              \<lparr>trades := trades (memory after_first_compaction) @ [buy_record 2000 3010]\<rparr>)"
  have f: "fires 2000 ?m" by (simp add: fires_def first_log)
  have b: "max_by_pnl (trades ?m) = Some 10"
    by (simp add: first_log max_by_pnl_def buy_record_def)
  show ?thesis
    unfolding after_second_compaction_def memory_buy_at trades_summarize_fires [OF f] b
    by (simp add: first_log)
qed

subsection \<open>Rounding to binary64 at the example states\<close>








section \<open>The claims\<close>

subsection \<open>Memory\<close>

text \<open>
  C2 asks that a compaction retain the 10 most recent records and the best record, in
  their original chronological order. \<open>summarize_if_needed\<close> appends the best record
  behind the ten recent ones, so from then on the log is not chronological and its last
  ten positions are not its ten most recent records. In the run of twelve outcomes, the
  first compaction moves the record of reading 1001 behind that of reading 1011; the
  second finds it among the last ten positions, keeps it there, and drops the record of
  reading 1003, one of the ten most recent records.
\<close>

theorem compaction_after_compaction_drops_recent:
  "trades (memory after_first_compaction) =
     [buy_record 1002 3010, buy_record 1003 3010, buy_record 1004 3010, buy_record 1005 3010,
      buy_record 1006 3010, buy_record 1007 3010, buy_record 1008 3010, buy_record 1009 3010,
      buy_record 1010 3010, buy_record 1011 3010, buy_record 1001 3100] \<and>
   trades (memory after_second_compaction) =
     [buy_record 1004 3010, buy_record 1005 3010, buy_record 1006 3010, buy_record 1007 3010,
      buy_record 1008 3010, buy_record 1009 3010, buy_record 1010 3010, buy_record 1011 3010,
      buy_record 1001 3100, buy_record 2000 3010] \<and>
   buy_record 1003 3010 \<notin> set (trades (memory after_second_compaction)) \<and>
   \<not> sorted (map timestamp (trades (memory after_first_compaction))) \<and>
   \<not> sorted (map timestamp (trades (memory after_second_compaction)))"
proof -
  have "buy_record 1003 3010 \<notin> set (trades (memory after_second_compaction))"
    by (simp add: second_log buy_record_def)
  moreover have "\<not> sorted (map timestamp (trades (memory after_first_compaction)))"
    by (simp add: first_log(1) buy_record_def)
  moreover have "\<not> sorted (map timestamp (trades (memory after_second_compaction)))"
    by (simp add: second_log buy_record_def)
  ultimately show ?thesis using first_log(1) second_log by blast
qed

text \<open>
  C7. After a compaction that fires, the log has at most 11 records, and the best
  record of the log before the compaction (highest \<open>pnl_pct\<close>, the first one met on a
  tie) is still in the log.
\<close>

theorem compaction_bound_and_best:
  assumes "fires now m"
  shows "length (trades (summarize_if_needed now m)) \<le> 11 \<and>
         (trades m = [] \<or>
          (\<exists>b. first_best (trades m) b \<and>
               trades m ! b \<in> set (trades (summarize_if_needed now m))))"
proof (cases "trades m = []")
  case True
  with compaction_length [OF assms] show ?thesis by simp
next
  case False
  from max_by_pnl_first_best [OF False] obtain b where "first_best (trades m) b" by blast
  with compaction_keeps_best [OF assms this] compaction_length [OF assms] show ?thesis by blast
qed

theorem compaction_bound_and_best_witness:
  "fires 1000 full_memory \<and>
   length (trades (summarize_if_needed 1000 full_memory)) \<le> 11 \<and>
   sample_record 1 0.05 \<in> set (trades (summarize_if_needed 1000 full_memory))"
proof -
  have ne: "trades full_memory \<noteq> []" by (simp add: trades_full sample_log_def)
  with compaction_bound_and_best [OF fires_full] obtain b where
    len: "length (trades (summarize_if_needed 1000 full_memory)) \<le> 11" and
    b: "first_best (trades full_memory) b" and
    mem: "trades full_memory ! b \<in> set (trades (summarize_if_needed 1000 full_memory))"
    by blast
  have fb: "first_best (trades full_memory) 0"
    by (simp add: trades_full first_best_sample)
  from first_best_unique [OF b fb] have "b = 0" .
  with mem have "sample_record 1 0.05 \<in> set (trades (summarize_if_needed 1000 full_memory))"
    by (simp add: trades_full sample_log_def)
  with fires_full len show ?thesis by simp
qed

text \<open>
  C8. \<open>record_trade_outcome\<close> appends a record whose \<open>pnl_pct\<close> is
  \<open>(exit - entry) / entry\<close> for \<open>USDC_TO_ETH\<close>, \<open>(entry - exit) / entry\<close> for
  \<open>ETH_TO_USDC\<close> (0 in both cases when \<open>entry \<le> 0\<close>) and 0 for \<open>HOLD\<close>: the record is
  in the log afterwards, and it is the log's new last element whenever the compaction
  that follows does not fire. From a fresh strategy, one \<open>USDC_TO_ETH\<close> outcome with
  entry 3000 and exit 3100 gives \<open>avg_pnl[USDC_TO_ETH] = 1/30\<close> and
  \<open>success_rates[USDC_TO_ETH] = 1\<close>.
\<close>

theorem record_trade_outcome_pnl:
  "\<lparr>timestamp = stamp, side = sd, eth_price = ex, size_eth = sz, pnl_pct = outcome_pnl sd en ex\<rparr>
     \<in> set (trades (memory (record_trade_outcome stamp now sd en ex sz s))) \<and>
   (\<not> fires now ((memory s)\<lparr>trades := trades (memory s) @
        [\<lparr>timestamp = stamp, side = sd, eth_price = ex, size_eth = sz,
          pnl_pct = outcome_pnl sd en ex\<rparr>]\<rparr>) \<longrightarrow>
    trades (memory (record_trade_outcome stamp now sd en ex sz s)) =
      trades (memory s) @
        [\<lparr>timestamp = stamp, side = sd, eth_price = ex, size_eth = sz,
          pnl_pct = outcome_pnl sd en ex\<rparr>]) \<and>
   avg_pnl (memory (record_trade_outcome stamp now USDC_TO_ETH 3000 3100 sz (init rt oc mk)))
     USDC_TO_ETH = 1 / 30 \<and>
   success_rates (memory (record_trade_outcome stamp now USDC_TO_ETH 3000 3100 sz (init rt oc mk)))
     USDC_TO_ETH = 1"
proof -
  let ?r = "\<lparr>timestamp = stamp, side = sd, eth_price = ex, size_eth = sz,
          pnl_pct = outcome_pnl sd en ex\<rparr>"
  let ?m1 = "(memory s)\<lparr>trades := trades (memory s) @ [?r]\<rparr>"
  have mem: "memory (record_trade_outcome stamp now sd en ex sz s) =
               summarize_if_needed now (update_metrics ?m1)"
    by (rule memory_record_trade_outcome)
  have "last (trades (memory s) @ [?r]) \<in> set (trades (summarize_if_needed now
          ((update_metrics ?m1)\<lparr>trades := trades (memory s) @ [?r]\<rparr>)))"
    by (rule last_kept) simp
  moreover have "(update_metrics ?m1)\<lparr>trades := trades (memory s) @ [?r]\<rparr> = update_metrics ?m1"
    by (simp add: update_metrics_def Let_def)
  ultimately have a: "?r \<in> set (trades (memory (record_trade_outcome stamp now sd en ex sz s)))"
    by (simp add: mem)
  have b: "\<not> fires now ?m1 \<longrightarrow>
        trades (memory (record_trade_outcome stamp now sd en ex sz s)) = trades (memory s) @ [?r]"
    by (simp add: mem trades_summarize_idle)
  let ?s = "record_trade_outcome stamp now USDC_TO_ETH 3000 3100 sz (init rt oc mk)"
  have "reachable ?s" by (intro reachable.intros)
  from reachable_metrics [OF this, of USDC_TO_ETH]
  have c: "avg_pnl (memory ?s) USDC_TO_ETH = 1 / 30 \<and> success_rates (memory ?s) USDC_TO_ETH = 1"
    by (simp add: single_trades win_fraction_def mean_pnl_def records_of_def outcome_pnl_def)
  from a b c show ?thesis by blast
qed

theorem record_trade_outcome_pnl_witness:
  "\<not> fires 1000 ((memory default_strategy)\<lparr>trades := trades (memory default_strategy) @
        [\<lparr>timestamp = 1, side = ETH_TO_USDC, eth_price = 2700, size_eth = 1,
          pnl_pct = 1 / 10\<rparr>]\<rparr>) \<and>
   trades (memory one_sale_strategy) =
     [\<lparr>timestamp = 1, side = ETH_TO_USDC, eth_price = 2700, size_eth = 1, pnl_pct = 1 / 10\<rparr>]"
proof -
  have p: "outcome_pnl ETH_TO_USDC 3000 2700 = 1 / 10"
    by (simp add: outcome_pnl_def)
  have nf: "\<not> fires 1000 ((memory default_strategy)\<lparr>trades := trades (memory default_strategy) @
        [\<lparr>timestamp = 1, side = ETH_TO_USDC, eth_price = 2700, size_eth = 1,
          pnl_pct = 1 / 10\<rparr>]\<rparr>)"
    by (simp add: fires_def default_strategy_def init_def)
  from record_trade_outcome_pnl [where stamp = 1 and now = 1000 and sd = ETH_TO_USDC
      and en = 3000 and ex = 2700 and sz = 1 and s = default_strategy] nf
  have "trades (memory one_sale_strategy) =
     [\<lparr>timestamp = 1, side = ETH_TO_USDC, eth_price = 2700, size_eth = 1, pnl_pct = 1 / 10\<rparr>]"
    by (simp add: p one_sale_strategy_def) (simp add: default_strategy_def init_def)
  with nf show ?thesis by simp
qed

text \<open>
  C10. In every reachable state \<open>success_rates[HOLD] = 0\<close> and \<open>avg_pnl[HOLD] = 0\<close>:
  every record with side \<open>HOLD\<close> has \<open>pnl_pct = 0\<close>.
\<close>

theorem hold_metrics_zero:
  assumes "reachable s"
  shows "success_rates (memory s) HOLD = 0 \<and> avg_pnl (memory s) HOLD = 0 \<and>
         list_all (\<lambda>t. side t = HOLD \<longrightarrow> pnl_pct t = 0) (trades (memory s))"
  using reachable_metrics [OF assms, of HOLD] reachable_hold_zero [OF assms]
    hold_zero_metrics [of "trades (memory s)"]
  by (simp add: list_all_iff)

theorem hold_metrics_zero_witness:
  "reachable one_hold_strategy \<and>
   trades (memory one_hold_strategy) =
     [\<lparr>timestamp = 1, side = HOLD, eth_price = 3100, size_eth = 1, pnl_pct = 0\<rparr>] \<and>
   success_rates (memory one_hold_strategy) HOLD = 0 \<and>
   avg_pnl (memory one_hold_strategy) HOLD = 0"
proof -
  have r: "reachable one_hold_strategy"
    unfolding one_hold_strategy_def by (intro reachable.r_record reachable_default)
  from hold_metrics_zero [OF r] r one_hold_trades show ?thesis by simp
qed

subsection \<open>Policy\<close>

text \<open>
  C3. While the warmup counter is below the warmup target, \<open>decide\<close> returns \<open>HOLD\<close>,
  whatever the price, the balances, the memory and the override signal.
\<close>

theorem decide_warmup_hold:
  assumes "observed_cycles s < observe_cycles_before_trade s"
  shows "fst (decide F price portfolio_eth portfolio_usdc sig s) = HOLD"
  using assms by (simp add: decide_def)

theorem decide_warmup_hold_witness:
  "observed_cycles warming_strategy < observe_cycles_before_trade warming_strategy \<and>
   fst (decide exact_ops 3000 1 3000 (Some 0.5) warming_strategy) = HOLD"
proof -
  have w: "observed_cycles warming_strategy < observe_cycles_before_trade warming_strategy"
    by (simp add: warming_strategy_def init_def)
  from decide_warmup_hold [OF w, where F = exact_ops and price = 3000 and portfolio_eth = 1
      and portfolio_usdc = 3000 and sig = "Some 0.5"] w show ?thesis by simp
qed





text \<open>
  C6. The market signal is 0 when there is no last-seen price; otherwise it is the
  relative change \<open>(price - last_price) / last_price\<close> (0 when \<open>last_price \<le> 0\<close>)
  clamped to [-0.02, 0.02]. For a last price of 3000 and a new price of 3100 it is 0.02.
\<close>

theorem market_signal_clamped:
  "market_signal s price =
     (case last_price s of
        None \<Rightarrow> 0
      | Some lp \<Rightarrow> clamp (- 0.02) 0.02 (relative_change lp price)) \<and>
   - 0.02 \<le> market_signal s price \<and> market_signal s price \<le> 0.02 \<and>
   market_signal (s\<lparr>last_price := Some 3000\<rparr>) 3100 = 0.02"
  by (auto simp add: market_signal_def clamp_def relative_change_def Let_def
      split: option.splits)

text \<open>
  C9. On every return path \<open>decide\<close> sets the last-seen price to its price argument and
  changes nothing else: the memory (the log and both aggregate maps), the warmup
  counter and the configuration are as before.
\<close>

theorem decide_frame:
  "snd (decide F price portfolio_eth portfolio_usdc sig s) = s\<lparr>last_price := Some price\<rparr> \<and>
   last_price (snd (decide F price portfolio_eth portfolio_usdc sig s)) = Some price \<and>
   memory (snd (decide F price portfolio_eth portfolio_usdc sig s)) = memory s \<and>
   observed_cycles (snd (decide F price portfolio_eth portfolio_usdc sig s)) = observed_cycles s \<and>
   observe_cycles_before_trade (snd (decide F price portfolio_eth portfolio_usdc sig s)) =
     observe_cycles_before_trade s \<and>
   rebalance_threshold (snd (decide F price portfolio_eth portfolio_usdc sig s)) =
     rebalance_threshold s"
  by (simp add: decide_def Let_def)

end
